theory Spec2Isabelle
  imports Complex_Main
begin

section \<open>Data model\<close>

text \<open>
  The booking engine of the marketplace: the route handlers of the bookings API
  (\<^verbatim>\<open>POST /api/bookings\<close>, \<^verbatim>\<open>PUT /api/bookings/[id]\<close>, \<^verbatim>\<open>DELETE /api/bookings/[id]\<close>),
  of the admin bookings API (\<^verbatim>\<open>DELETE /api/admin/bookings\<close>) and of the reviews API
  (\<^verbatim>\<open>POST /api/reviews\<close> with its helper \<^verbatim>\<open>updateServiceRating\<close>).

  Each handler is a function from the database before the request to a response and the
  database after it, for a request that runs alone; the steps of a review request are
  given one by one as well, for requests that run interleaved. Identifiers are strings; a time
  stamp is a number of milliseconds; JavaScript numbers are exact rationals (every rating
  that is stored is an integer, so the sum of the ratings is exact in the source too).
\<close>

text \<open>
  The role of a principal, \<^verbatim>\<open>role: "user" | "provider" | "admin"\<close>.
\<close>

datatype role = RoleUser | RoleProvider | RoleAdmin

text \<open>The \<^verbatim>\<open>user\<close> argument that the authentication wrapper hands to a handler.\<close>

record principal =
  p_userId :: string
  p_role :: role

text \<open>
  The kinds of response other than success. The handlers answer with an HTTP status and a
  message; each kind stands for these responses:
  \<^item> \<open>ValidationError\<close>: 400 "Service ID and date are required",
    400 "Booking ID and rating are required", 400 "Rating must be between 1 and 5",
    400 "Booking ID is required";
  \<^item> \<open>NotFound\<close>: 404 "Service not found or unavailable", 404 "Booking not found";
  \<^item> \<open>Forbidden\<close>: 403 "Unauthorized";
  \<^item> \<open>Unauthorized\<close>: 401 "Unauthorized" (the admin routes);
  \<^item> \<open>InvalidOperation\<close>: 400 "Cannot book your own service",
    400 "Cannot cancel completed or already cancelled booking",
    400 "Can only review completed bookings",
    400 "Cannot delete booking with existing review";
  \<^item> \<open>InvalidTransition\<close>: 400 "Invalid status transition";
  \<^item> \<open>Conflict\<close>: 400 "Service is not available at this time",
    400 "Review already exists for this booking";
  \<^item> \<open>Internal\<close>: 500 "Internal server error", the \<^verbatim>\<open>catch\<close> of every handler.
\<close>

datatype error =
    ValidationError
  | NotFound
  | Forbidden
  | Unauthorized
  | InvalidOperation
  | InvalidTransition
  | Conflict
  | Internal

text \<open>
  Modelled from the spec: the weekly availability window of a service,
  \<open>{days, startTime, endTime}\<close>. The source stores it in the \<^verbatim>\<open>availability\<close> column; the
  schema that declares the column is not part of the sources.
\<close>

record availability =
  days :: "string list"
  startTime :: string
  endTime :: string

record service =
  s_id :: string
  s_providerId :: string
  s_price :: rat
  s_isActive :: bool
  s_availability :: availability
  s_rating :: rat
  s_reviewCount :: nat

record booking =
  b_id :: string
  b_userId :: string
  b_providerId :: string
  b_serviceId :: string
  b_date :: int
  b_status :: string
  b_notes :: "string option"
  b_totalPrice :: rat
  b_paymentStatus :: string
  b_createdAt :: int
  b_updatedAt :: int

record review =
  r_id :: string
  r_userId :: string
  r_serviceId :: string
  r_providerId :: string
  r_bookingId :: string
  r_rating :: int
  r_comment :: "string option"
  r_createdAt :: int

text \<open>The three tables the handlers read and write.\<close>

record store =
  services :: "service list"
  bookings :: "booking list"
  reviews :: "review list"

text \<open>
  The \<^verbatim>\<open>date\<close> of a request body, as far as the handler looks at it: \<^verbatim>\<open>!date\<close> holds
  (\<open>DateAbsent\<close>: no date, or an empty one), or \<^verbatim>\<open>new Date(date)\<close> is no time stamp
  (\<open>DateInvalid\<close>), or it is the time stamp \<open>t\<close> (\<open>DateAt t\<close>).
\<close>

datatype date_in = DateAbsent | DateInvalid | DateAt int

section \<open>Database operations\<close>

definition service_findUnique :: "store \<Rightarrow> string \<Rightarrow> service option" where
  "service_findUnique st sid = find (\<lambda>s. s_id s = sid) (services st)"

definition booking_findUnique :: "store \<Rightarrow> string \<Rightarrow> booking option" where
  "booking_findUnique st bid = find (\<lambda>b. b_id b = bid) (bookings st)"

text \<open>
  \<^verbatim>\<open>prisma.booking.findFirst({ where: { serviceId, date: new Date(date),
  status: { in: ["pending", "confirmed", "in_progress"] } } })\<close>
\<close>

definition conflictingBooking :: "store \<Rightarrow> string \<Rightarrow> int \<Rightarrow> booking option" where
  "conflictingBooking st sid t =
     find (\<lambda>b. b_serviceId b = sid \<and> b_date b = t
               \<and> b_status b \<in> set [''pending'', ''confirmed'', ''in_progress''])
          (bookings st)"

text \<open>
  Modelled from the spec: the columns of a new booking that \<^verbatim>\<open>prisma.booking.create\<close>
  is not given take the defaults of the schema, which is not part of the sources:
  \<open>status = pending\<close>, \<open>paymentStatus = pending\<close>, the key \<open>newId\<close> generated by the
  database, and the time \<open>now\<close> of the insertion in \<open>createdAt\<close> and \<open>updatedAt\<close>.
\<close>

definition booking_create ::
  "string \<Rightarrow> int \<Rightarrow> string \<Rightarrow> string \<Rightarrow> string \<Rightarrow> int \<Rightarrow> string option \<Rightarrow> rat \<Rightarrow> booking"
where
  "booking_create newId now uid sid pid t notes price =
     \<lparr> b_id = newId, b_userId = uid, b_providerId = pid, b_serviceId = sid, b_date = t,
       b_status = ''pending'', b_notes = notes, b_totalPrice = price,
       b_paymentStatus = ''pending'', b_createdAt = now, b_updatedAt = now \<rparr>"

text \<open>
  \<^verbatim>\<open>prisma.booking.update({ where: { id }, data })\<close>: \<open>f\<close> writes the fields of \<open>data\<close>
  to the booking with this id.
  Modelled from the spec: the update also sets \<open>updatedAt\<close>.
\<close>

definition booking_update :: "int \<Rightarrow> store \<Rightarrow> string \<Rightarrow> (booking \<Rightarrow> booking) \<Rightarrow> store" where
  "booking_update now st bid f =
     st\<lparr>bookings := map (\<lambda>b. if b_id b = bid then (f b)\<lparr>b_updatedAt := now\<rparr> else b)
                          (bookings st)\<rparr>"

definition booking_delete :: "store \<Rightarrow> string \<Rightarrow> store" where
  "booking_delete st bid = st\<lparr>bookings := filter (\<lambda>b. b_id b \<noteq> bid) (bookings st)\<rparr>"

text \<open>\<^verbatim>\<open>prisma.review.findUnique({ where: { bookingId } })\<close>\<close>

definition existingReview :: "store \<Rightarrow> string \<Rightarrow> review option" where
  "existingReview st bid = find (\<lambda>r. r_bookingId r = bid) (reviews st)"

section \<open>Creating a booking\<close>

text \<open>
  \<^verbatim>\<open>POST /api/bookings\<close>. \<open>serviceId = ''''\<close> stands for a body without a service id
  (\<^verbatim>\<open>!serviceId\<close>). A date that is no time stamp makes the conflict query throw, which
  the handler's \<^verbatim>\<open>catch\<close> answers with 500.
\<close>

definition POST_booking ::
  "string \<Rightarrow> int \<Rightarrow> store \<Rightarrow> principal \<Rightarrow> string \<Rightarrow> date_in \<Rightarrow> string option
     \<Rightarrow> (error + booking) \<times> store"
where
  "POST_booking newId now st user serviceId date notes =
     (if serviceId = [] \<or> date = DateAbsent then (Inl ValidationError, st)
      else case service_findUnique st serviceId of
        None \<Rightarrow> (Inl NotFound, st)
      | Some service \<Rightarrow>
          if \<not> s_isActive service then (Inl NotFound, st)
          else if s_providerId service = p_userId user then (Inl InvalidOperation, st)
          else (case date of
              DateAt t \<Rightarrow>
                (case conflictingBooking st serviceId t of
                   Some c \<Rightarrow> (Inl Conflict, st)
                 | None \<Rightarrow>
                     let booking = booking_create newId now (p_userId user) serviceId
                                     (s_providerId service) t notes (s_price service)
                     in (Inr booking, st\<lparr>bookings := bookings st @ [booking]\<rparr>))
            | _ \<Rightarrow> (Inl Internal, st)))"

section \<open>Changing a booking\<close>

text \<open>
  \<^verbatim>\<open>const allowedStatuses = { user: ["cancelled"], provider: [...], admin: [...] }\<close>
\<close>

fun allowedStatuses :: "role \<Rightarrow> string list" where
  "allowedStatuses RoleUser = [''cancelled'']"
| "allowedStatuses RoleProvider = [''confirmed'', ''in_progress'', ''completed'', ''cancelled'']"
| "allowedStatuses RoleAdmin =
     [''pending'', ''confirmed'', ''in_progress'', ''completed'', ''cancelled'']"

text \<open>
  \<^verbatim>\<open>PUT /api/bookings/[id]\<close> with the body \<^verbatim>\<open>{ status, notes }\<close>. An empty \<open>status\<close>
  stands for a body without a status (\<^verbatim>\<open>status\<close> is falsy); \<open>notes = None\<close> is
  \<^verbatim>\<open>notes === undefined\<close>, \<open>Some None\<close> is \<^verbatim>\<open>null\<close>. \<open>updatedBooking\<close> is the row
  that the update returns.
\<close>

definition PUT_booking ::
  "int \<Rightarrow> store \<Rightarrow> principal \<Rightarrow> string \<Rightarrow> string \<Rightarrow> string option option
     \<Rightarrow> (error + booking) \<times> store"
where
  "PUT_booking now st user bid status notes =
     (case booking_findUnique st bid of
        None \<Rightarrow> (Inl NotFound, st)
      | Some booking \<Rightarrow>
          if p_role user = RoleUser \<and> b_userId booking \<noteq> p_userId user
            then (Inl Forbidden, st)
          else if p_role user = RoleProvider \<and> b_providerId booking \<noteq> p_userId user
            then (Inl Forbidden, st)
          else if status \<noteq> [] \<and> status \<notin> set (allowedStatuses (p_role user))
            then (Inl InvalidTransition, st)
          else
            let updateData = (\<lambda>b.
                  let b1 = (if status \<noteq> [] then b\<lparr>b_status := status\<rparr> else b)
                  in (case notes of None \<Rightarrow> b1 | Some n \<Rightarrow> b1\<lparr>b_notes := n\<rparr>));
                updatedBooking = (updateData booking)\<lparr>b_updatedAt := now\<rparr>
            in (Inr updatedBooking, booking_update now st bid updateData))"

text \<open>
  \<^verbatim>\<open>DELETE /api/bookings/[id]\<close>, which cancels: "Only allow cancellation, not deletion".
\<close>

definition DELETE_booking :: "int \<Rightarrow> store \<Rightarrow> principal \<Rightarrow> string \<Rightarrow> (error + unit) \<times> store" where
  "DELETE_booking now st user bid =
     (case booking_findUnique st bid of
        None \<Rightarrow> (Inl NotFound, st)
      | Some booking \<Rightarrow>
          if b_status booking = ''completed'' \<or> b_status booking = ''cancelled''
            then (Inl InvalidOperation, st)
          else if b_userId booking \<noteq> p_userId user \<and> b_providerId booking \<noteq> p_userId user
                  \<and> p_role user \<noteq> RoleAdmin
            then (Inl Forbidden, st)
          else (Inr (), booking_update now st bid (\<lambda>b. b\<lparr>b_status := ''cancelled''\<rparr>)))"

text \<open>
  \<^verbatim>\<open>DELETE /api/admin/bookings?id=...\<close>, the only handler that removes a booking.
  \<open>user = None\<close> is a request without a valid token; an empty \<open>bookingId\<close> is a request
  without the \<^verbatim>\<open>id\<close> parameter. \<^verbatim>\<open>bookingData.review\<close> is the review whose
  \<open>bookingId\<close> is this booking.
\<close>

definition admin_DELETE_booking ::
  "store \<Rightarrow> principal option \<Rightarrow> string \<Rightarrow> (error + unit) \<times> store"
where
  "admin_DELETE_booking st user bookingId =
     (if (case user of None \<Rightarrow> True | Some u \<Rightarrow> p_role u \<noteq> RoleAdmin)
        then (Inl Unauthorized, st)
      else if bookingId = [] then (Inl ValidationError, st)
      else case booking_findUnique st bookingId of
        None \<Rightarrow> (Inl NotFound, st)
      | Some bookingData \<Rightarrow>
          (case existingReview st bookingId of
             Some r \<Rightarrow> (Inl InvalidOperation, st)
           | None \<Rightarrow> (Inr (), booking_delete st bookingId)))"

section \<open>Reviews and the rating of a service\<close>

text \<open>\<^verbatim>\<open>Math.round\<close>: the nearest integer, a half rounded up.\<close>

definition Math_round :: "rat \<Rightarrow> int" where
  "Math_round x = \<lfloor>x + 1 / 2\<rfloor>"

text \<open>
  \<^verbatim>\<open>prisma.service.update({ where: { id }, data: { rating, reviewCount } })\<close>, which throws
  (\<open>None\<close>) when no service has this id.
\<close>

definition service_update :: "store \<Rightarrow> string \<Rightarrow> rat \<Rightarrow> nat \<Rightarrow> store option" where
  "service_update st sid rating n =
     (if list_ex (\<lambda>s. s_id s = sid) (services st)
      then Some (st\<lparr>services :=
                     map (\<lambda>s. if s_id s = sid then s\<lparr>s_rating := rating, s_reviewCount := n\<rparr>
                               else s)
                         (services st)\<rparr>)
      else None)"

text \<open>The helper \<^verbatim>\<open>updateServiceRating(serviceId)\<close>; \<open>None\<close> when the update throws.\<close>

definition updateServiceRating :: "store \<Rightarrow> string \<Rightarrow> store option" where
  "updateServiceRating st serviceId =
     (let rs = filter (\<lambda>r. r_serviceId r = serviceId) (reviews st)
      in if length rs > 0 then
           let avgRating = of_int (foldl (\<lambda>sum r. sum + r_rating r) 0 rs) / of_nat (length rs)
           in service_update st serviceId
                (of_int (Math_round (avgRating * 10)) / 10) (length rs)
         else Some st)"

text \<open>
  Modelled from the spec: the \<open>rating\<close> column of a review is an integer (the schema
  that declares it is not part of the sources), so \<^verbatim>\<open>prisma.review.create\<close> throws
  (\<open>None\<close>) on a number that is no integer. The key \<open>newId\<close> and the time \<open>now\<close> of the
  insertion are the defaults of the remaining columns.
\<close>

definition review_create ::
  "string \<Rightarrow> int \<Rightarrow> string \<Rightarrow> string \<Rightarrow> string \<Rightarrow> string \<Rightarrow> rat \<Rightarrow> string option
     \<Rightarrow> review option"
where
  "review_create newId now uid sid pid bid rating comment =
     (if rating = of_int \<lfloor>rating\<rfloor>
      then Some \<lparr> r_id = newId, r_userId = uid, r_serviceId = sid, r_providerId = pid,
                  r_bookingId = bid, r_rating = \<lfloor>rating\<rfloor>, r_comment = comment,
                  r_createdAt = now \<rparr>
      else None)"

text \<open>
  \<^verbatim>\<open>POST /api/reviews\<close> with the body \<^verbatim>\<open>{ bookingId, rating, comment }\<close>.
  An empty \<open>bookingId\<close> stands for a body without a booking id; \<open>rating = None\<close> for a
  body without a rating, \<open>Some x\<close> for the JSON number \<open>x\<close> (\<^verbatim>\<open>!rating\<close> holds of 0 too).
  What throws inside the handler is answered with 500 by its \<^verbatim>\<open>catch\<close>; a review that was
  inserted before stays.
\<close>

definition POST_review ::
  "string \<Rightarrow> int \<Rightarrow> store \<Rightarrow> principal \<Rightarrow> string \<Rightarrow> rat option \<Rightarrow> string option
     \<Rightarrow> (error + review) \<times> store"
where
  "POST_review newId now st user bookingId rating comment =
     (case rating of
        None \<Rightarrow> (Inl ValidationError, st)
      | Some x \<Rightarrow>
          if bookingId = [] \<or> x = 0 then (Inl ValidationError, st)
          else if x < 1 \<or> x > 5 then (Inl ValidationError, st)
          else (case booking_findUnique st bookingId of
            None \<Rightarrow> (Inl NotFound, st)
          | Some booking \<Rightarrow>
              if b_userId booking \<noteq> p_userId user then (Inl Forbidden, st)
              else if b_status booking \<noteq> ''completed'' then (Inl InvalidOperation, st)
              else (case existingReview st bookingId of
                Some r \<Rightarrow> (Inl Conflict, st)
              | None \<Rightarrow>
                  (case review_create newId now (p_userId user) (b_serviceId booking)
                          (b_providerId booking) bookingId x comment of
                     None \<Rightarrow> (Inl Internal, st)
                   | Some review \<Rightarrow>
                       let st1 = st\<lparr>reviews := reviews st @ [review]\<rparr>
                       in (case updateServiceRating st1 (b_serviceId booking) of
                             None \<Rightarrow> (Inl Internal, st1)
                           | Some st2 \<Rightarrow> (Inr review, st2))))))"

text \<open>
  The handler holds no transaction, and it awaits the database after the insert of the
  review, after the query for the reviews of the service and after the update of the
  service: between these steps other requests run. The steps of one request are the
  checks with the insert (\<^verbatim>\<open>prisma.review.create\<close>), the query of
  \<^verbatim>\<open>updateServiceRating\<close> (\<^verbatim>\<open>prisma.review.findMany\<close>), and its update
  (\<^verbatim>\<open>prisma.service.update\<close>) from the reviews that the query returned.
\<close>

definition POST_review_create ::
  "string \<Rightarrow> int \<Rightarrow> store \<Rightarrow> principal \<Rightarrow> string \<Rightarrow> rat option \<Rightarrow> string option
     \<Rightarrow> (error + review \<times> string) \<times> store"
where
  "POST_review_create newId now st user bookingId rating comment =
     (case rating of
        None \<Rightarrow> (Inl ValidationError, st)
      | Some x \<Rightarrow>
          if bookingId = [] \<or> x = 0 then (Inl ValidationError, st)
          else if x < 1 \<or> x > 5 then (Inl ValidationError, st)
          else (case booking_findUnique st bookingId of
            None \<Rightarrow> (Inl NotFound, st)
          | Some booking \<Rightarrow>
              if b_userId booking \<noteq> p_userId user then (Inl Forbidden, st)
              else if b_status booking \<noteq> ''completed'' then (Inl InvalidOperation, st)
              else (case existingReview st bookingId of
                Some r \<Rightarrow> (Inl Conflict, st)
              | None \<Rightarrow>
                  (case review_create newId now (p_userId user) (b_serviceId booking)
                          (b_providerId booking) bookingId x comment of
                     None \<Rightarrow> (Inl Internal, st)
                   | Some review \<Rightarrow>
                       (Inr (review, b_serviceId booking),
                        st\<lparr>reviews := reviews st @ [review]\<rparr>)))))"

definition review_findMany :: "store \<Rightarrow> string \<Rightarrow> review list" where
  "review_findMany st serviceId = filter (\<lambda>r. r_serviceId r = serviceId) (reviews st)"

definition updateServiceRating_update :: "store \<Rightarrow> string \<Rightarrow> review list \<Rightarrow> store option" where
  "updateServiceRating_update st serviceId rs =
     (if length rs > 0 then
        let avgRating = of_int (foldl (\<lambda>sum r. sum + r_rating r) 0 rs) / of_nat (length rs)
        in service_update st serviceId
             (of_int (Math_round (avgRating * 10)) / 10) (length rs)
      else Some st)"

section \<open>Notions used to state the properties\<close>

text \<open>The store with the availability window of every service \<open>s\<close> replaced by \<open>w s\<close>.\<close>

definition set_availability :: "(service \<Rightarrow> availability) \<Rightarrow> store \<Rightarrow> store" where
  "set_availability w st =
     st\<lparr>services := map (\<lambda>s. s\<lparr>s_availability := w s\<rparr>) (services st)\<rparr>"

text \<open>The store with the status of booking \<open>bid\<close> replaced by \<open>cur\<close>.\<close>

definition set_status :: "string \<Rightarrow> string \<Rightarrow> store \<Rightarrow> store" where
  "set_status cur bid st =
     st\<lparr>bookings := map (\<lambda>b. if b_id b = bid then b\<lparr>b_status := cur\<rparr> else b) (bookings st)\<rparr>"

text \<open>
  The foreign key of \<open>Booking.serviceId\<close>: the service of every booking is in the store.
\<close>

definition bookings_have_service :: "store \<Rightarrow> bool" where
  "bookings_have_service st =
     list_all (\<lambda>b. list_ex (\<lambda>s. s_id s = b_serviceId b) (services st)) (bookings st)"

text \<open>The ratings of the reviews linked to service \<open>sid\<close>.\<close>

definition ratings_of :: "store \<Rightarrow> string \<Rightarrow> int list" where
  "ratings_of st sid = map r_rating (filter (\<lambda>r. r_serviceId r = sid) (reviews st))"

text \<open>The arithmetic mean of a list of ratings.\<close>

definition mean :: "int list \<Rightarrow> rat" where
  "mean xs = of_int (sum_list xs) / of_nat (length xs)"

text \<open>\<open>r\<close> is \<open>x\<close> rounded to one decimal place: a multiple of 1/10 nearest to \<open>x\<close>.\<close>

definition rounded_to_one_decimal :: "rat \<Rightarrow> rat \<Rightarrow> bool" where
  "rounded_to_one_decimal x r \<longleftrightarrow> r * 10 = of_int \<lfloor>r * 10\<rfloor> \<and> \<bar>r - x\<bar> \<le> 1 / 20"

section \<open>The scenarios of the specification\<close>

text \<open>
  Service \<open>S1\<close> of provider \<open>P1\<close> at the price 50, open on Mondays from 9 to 17; booking
  \<open>B1\<close> of customer \<open>C1\<close> for 2024-06-01T10:00Z, a Saturday.
\<close>

definition ex_service :: service where
  "ex_service =
     \<lparr> s_id = ''S1'', s_providerId = ''P1'', s_price = 50, s_isActive = True,
       s_availability = \<lparr> days = [''monday''], startTime = ''09:00'', endTime = ''17:00'' \<rparr>,
       s_rating = 0, s_reviewCount = 0 \<rparr>"

definition ex_booking :: "string \<Rightarrow> booking" where
  "ex_booking status =
     \<lparr> b_id = ''B1'', b_userId = ''C1'', b_providerId = ''P1'', b_serviceId = ''S1'',
       b_date = 1717236000000, b_status = status, b_notes = None, b_totalPrice = 50,
       b_paymentStatus = ''pending'', b_createdAt = 0, b_updatedAt = 0 \<rparr>"

definition ex_review :: review where
  "ex_review =
     \<lparr> r_id = ''R1'', r_userId = ''C1'', r_serviceId = ''S1'', r_providerId = ''P1'',
       r_bookingId = ''B1'', r_rating = 4, r_comment = None, r_createdAt = 1 \<rparr>"

text \<open>The store before any booking, with \<open>B1\<close> in a given status, and with \<open>B1\<close> reviewed.\<close>

definition ex_empty :: store where
  "ex_empty = \<lparr> services = [ex_service], bookings = [], reviews = [] \<rparr>"

definition ex_store :: "string \<Rightarrow> store" where
  "ex_store status = \<lparr> services = [ex_service], bookings = [ex_booking status], reviews = [] \<rparr>"

definition ex_reviewed :: store where
  "ex_reviewed =
     \<lparr> services = [ex_service\<lparr>s_rating := 4, s_reviewCount := 1\<rparr>],
       bookings = [ex_booking ''completed''], reviews = [ex_review] \<rparr>"

text \<open>
  The bookings \<open>B2\<close> and \<open>B3\<close> of customer \<open>C2\<close> for the same service, both completed, and
  their reviews.
\<close>

definition ex_booking2 :: booking where
  "ex_booking2 = (ex_booking ''completed'')\<lparr>b_id := ''B2'', b_userId := ''C2''\<rparr>"

definition ex_booking3 :: booking where
  "ex_booking3 = (ex_booking ''completed'')\<lparr>b_id := ''B3'', b_userId := ''C2''\<rparr>"

definition ex_review2 :: "int \<Rightarrow> review" where
  "ex_review2 rating =
     \<lparr> r_id = ''R2'', r_userId = ''C2'', r_serviceId = ''S1'', r_providerId = ''P1'',
       r_bookingId = ''B2'', r_rating = rating, r_comment = None, r_createdAt = 2 \<rparr>"

definition ex_review3 :: review where
  "ex_review3 =
     \<lparr> r_id = ''R3'', r_userId = ''C2'', r_serviceId = ''S1'', r_providerId = ''P1'',
       r_bookingId = ''B3'', r_rating = 5, r_comment = None, r_createdAt = 3 \<rparr>"

text \<open>
  The store with \<open>B1\<close> and \<open>B2\<close> completed and not reviewed, and the store with \<open>B2\<close> and
  \<open>B3\<close> reviewed with 5 each and \<open>B1\<close> completed.
\<close>

definition ex_two_completed :: store where
  "ex_two_completed =
     \<lparr> services = [ex_service], bookings = [ex_booking ''completed'', ex_booking2],
       reviews = [] \<rparr>"

definition ex_rated :: store where
  "ex_rated =
     \<lparr> services = [ex_service\<lparr>s_rating := 5, s_reviewCount := 2\<rparr>],
       bookings = [ex_booking ''completed'', ex_booking2, ex_booking3],
       reviews = [ex_review2 5, ex_review3] \<rparr>"

text \<open>
  The customer, the provider, an admin, another customer, and the customer of \<open>B1\<close> when
  the account \<open>C1\<close> has the role of a provider.
\<close>

definition ex_customer :: principal where
  "ex_customer = \<lparr> p_userId = ''C1'', p_role = RoleUser \<rparr>"

definition ex_provider :: principal where
  "ex_provider = \<lparr> p_userId = ''P1'', p_role = RoleProvider \<rparr>"

definition ex_admin :: principal where
  "ex_admin = \<lparr> p_userId = ''A1'', p_role = RoleAdmin \<rparr>"

definition ex_stranger :: principal where
  "ex_stranger = \<lparr> p_userId = ''C2'', p_role = RoleUser \<rparr>"

definition ex_provider_as_customer :: principal where
  "ex_provider_as_customer = \<lparr> p_userId = ''C1'', p_role = RoleProvider \<rparr>"

section \<open>Lemmas on the database operations\<close>

lemma find_None_ball: "(find P xs = None) = (\<forall>x\<in>set xs. \<not> P x)"
  by (induction xs) auto

lemma find_SomeD: "find P xs = Some x \<Longrightarrow> x \<in> set xs \<and> P x"
  by (induction xs) (auto split: if_splits)

section \<open>Creating a booking: the order of the checks\<close>



section \<open>The conflict check and the availability window\<close>

lemma find_set_availability:
  "find (\<lambda>s. s_id s = sid) (map (\<lambda>s. s\<lparr>s_availability := w s\<rparr>) xs)
     = map_option (\<lambda>s. s\<lparr>s_availability := w s\<rparr>) (find (\<lambda>s. s_id s = sid) xs)"
  by (induction xs) auto

lemma service_findUnique_set_availability:
  "service_findUnique (set_availability w st) sid
     = map_option (\<lambda>s. s\<lparr>s_availability := w s\<rparr>) (service_findUnique st sid)"
  by (simp add: service_findUnique_def set_availability_def find_set_availability)

lemma conflictingBooking_set_availability:
  "conflictingBooking (set_availability w st) sid t = conflictingBooking st sid t"
  by (simp add: conflictingBooking_def set_availability_def)

lemma conflictingBooking_iff:
  "(conflictingBooking st sid t \<noteq> None) =
     (\<exists>b\<in>set (bookings st). b_serviceId b = sid \<and> b_date b = t
        \<and> b_status b \<in> {''pending'', ''confirmed'', ''in_progress''})"
  by (auto simp: conflictingBooking_def find_None_ball)

lemma bookings_set_availability [simp]:
  "bookings (set_availability w st) = bookings st"
  by (simp add: set_availability_def)

lemma set_availability_bookings_update:
  "set_availability w (st\<lparr>bookings := bs\<rparr>) = (set_availability w st)\<lparr>bookings := bs\<rparr>"
  by (simp add: set_availability_def)

lemma POST_booking_set_availability:
  "POST_booking newId now (set_availability w st) user sid date notes
     = (fst (POST_booking newId now st user sid date notes),
        set_availability w (snd (POST_booking newId now st user sid date notes)))"
proof (cases "service_findUnique st sid")
  case None
  then show ?thesis
    by (simp add: POST_booking_def service_findUnique_set_availability)
next
  case (Some s)
  then show ?thesis
    by (simp add: POST_booking_def service_findUnique_set_availability
        conflictingBooking_set_availability set_availability_bookings_update Let_def
        split: option.splits date_in.splits)
qed

text \<open>
  Claim C2. For a request that names an active service of another provider, the handler
  answers \<open>Conflict\<close>, leaving the store as it was, exactly when some booking of the same
  service at exactly the same time stamp is pending, confirmed or in progress; with no
  such booking the request succeeds whatever the availability windows of the services
  are. The query of the conflict check finds a booking in exactly these cases. The
  availability window is never read: replacing the windows of all services by any others
  changes neither the conflict check nor the answer to any request to create a booking.
\<close>

theorem conflict_check_exact_slot_only:
  "(\<forall>service. serviceId \<noteq> [] \<and> service_findUnique st serviceId = Some service
        \<and> s_isActive service \<and> s_providerId service \<noteq> p_userId user \<longrightarrow>
      (POST_booking newId now st user serviceId (DateAt t) notes = (Inl Conflict, st)
         \<longleftrightarrow> (\<exists>b\<in>set (bookings st). b_serviceId b = serviceId \<and> b_date b = t
                \<and> b_status b \<in> {''pending'', ''confirmed'', ''in_progress''}))
    \<and> (fst (POST_booking newId now st user serviceId (DateAt t) notes) = Inl Conflict
         \<longleftrightarrow> (\<exists>b\<in>set (bookings st). b_serviceId b = serviceId \<and> b_date b = t
                \<and> b_status b \<in> {''pending'', ''confirmed'', ''in_progress''}))
    \<and> (\<not> (\<exists>b\<in>set (bookings st). b_serviceId b = serviceId \<and> b_date b = t
                \<and> b_status b \<in> {''pending'', ''confirmed'', ''in_progress''}) \<longrightarrow>
         (\<exists>b. POST_booking newId now (set_availability w st) user serviceId (DateAt t) notes
               = (Inr b, (set_availability w st)\<lparr>bookings := bookings st @ [b]\<rparr>))))
  \<and> (conflictingBooking st serviceId t \<noteq> None
      \<longleftrightarrow> (\<exists>b\<in>set (bookings st). b_serviceId b = serviceId \<and> b_date b = t
             \<and> b_status b \<in> {''pending'', ''confirmed'', ''in_progress''}))
  \<and> conflictingBooking (set_availability w st) serviceId t = conflictingBooking st serviceId t
  \<and> POST_booking newId now (set_availability w st) user serviceId date notes
       = (fst (POST_booking newId now st user serviceId date notes),
          set_availability w (snd (POST_booking newId now st user serviceId date notes)))"
proof -
  let ?taken = "\<exists>b\<in>set (bookings st). b_serviceId b = serviceId \<and> b_date b = t
                \<and> b_status b \<in> {''pending'', ''confirmed'', ''in_progress''}"
  have handler: "(POST_booking newId now st user serviceId (DateAt t) notes = (Inl Conflict, st)
         \<longleftrightarrow> ?taken)
    \<and> (fst (POST_booking newId now st user serviceId (DateAt t) notes) = Inl Conflict
         \<longleftrightarrow> ?taken)
    \<and> (\<not> ?taken \<longrightarrow>
         (\<exists>b. POST_booking newId now (set_availability w st) user serviceId (DateAt t) notes
               = (Inr b, (set_availability w st)\<lparr>bookings := bookings st @ [b]\<rparr>)))"
    if pre: "serviceId \<noteq> []" "service_findUnique st serviceId = Some service"
      "s_isActive service" "s_providerId service \<noteq> p_userId user"
    for service
  proof (cases "conflictingBooking st serviceId t")
    case None
    then have free: "\<not> ?taken"
      using conflictingBooking_iff [of st serviceId t] by simp
    have "\<exists>b. POST_booking newId now st user serviceId (DateAt t) notes
             = (Inr b, st\<lparr>bookings := bookings st @ [b]\<rparr>)"
      using pre None by (simp add: POST_booking_def Let_def)
    then obtain b where
      ok: "POST_booking newId now st user serviceId (DateAt t) notes
             = (Inr b, st\<lparr>bookings := bookings st @ [b]\<rparr>)"
      by blast
    then have "POST_booking newId now (set_availability w st) user serviceId (DateAt t) notes
               = (Inr b, (set_availability w st)\<lparr>bookings := bookings st @ [b]\<rparr>)"
      by (simp add: POST_booking_set_availability set_availability_bookings_update)
    with free ok show ?thesis by auto
  next
    case (Some c)
    then have taken: "?taken"
      using conflictingBooking_iff [of st serviceId t] by simp
    have "POST_booking newId now st user serviceId (DateAt t) notes = (Inl Conflict, st)"
      using pre Some by (simp add: POST_booking_def)
    with taken show ?thesis by simp
  qed
  show ?thesis
    using handler conflictingBooking_iff [of st serviceId t]
      conflictingBooking_set_availability [of w st serviceId t]
      POST_booking_set_availability [of newId now w st user serviceId date "notes"]
    by blast
qed

text \<open>
  \<open>S1\<close> is open on Mondays from 9 to 17; the booking for Saturday 2024-06-01 at 10:00 is
  accepted. While \<open>B1\<close> is in progress the same slot is refused to another customer; it
  is not refused when \<open>B1\<close> is cancelled, nor is the slot one millisecond later.
\<close>

theorem conflict_check_exact_slot_only_witness:
  "s_availability ex_service = \<lparr>days = [''monday''], startTime = ''09:00'', endTime = ''17:00''\<rparr>
   \<and> (\<exists>b. POST_booking ''B1'' 0 ex_empty ex_customer ''S1'' (DateAt 1717236000000) None
            = (Inr b, ex_empty\<lparr>bookings := [b]\<rparr>))
   \<and> POST_booking ''B2'' 1 (ex_store ''in_progress'') ex_stranger ''S1''
        (DateAt 1717236000000) None = (Inl Conflict, ex_store ''in_progress'')
   \<and> fst (POST_booking ''B2'' 1 (ex_store ''cancelled'') ex_stranger ''S1''
        (DateAt 1717236000000) None) \<noteq> Inl Conflict
   \<and> fst (POST_booking ''B2'' 1 (ex_store ''pending'') ex_stranger ''S1''
        (DateAt 1717236000001) None) \<noteq> Inl Conflict"
proof -
  have same: "set_availability s_availability ex_empty = ex_empty"
    by (simp add: set_availability_def ex_empty_def)
  have pre: "''S1'' \<noteq> [] \<and> service_findUnique ex_empty ''S1'' = Some ex_service
         \<and> s_isActive ex_service \<and> s_providerId ex_service \<noteq> p_userId ex_customer"
    by (simp add: service_findUnique_def ex_empty_def ex_service_def ex_customer_def)
  have pre2: "''S1'' \<noteq> [] \<and> service_findUnique (ex_store s) ''S1'' = Some ex_service
         \<and> s_isActive ex_service \<and> s_providerId ex_service \<noteq> p_userId ex_stranger" for s
    by (simp add: service_findUnique_def ex_store_def ex_service_def ex_stranger_def)
  have free: "\<not> (\<exists>b\<in>set (bookings ex_empty). b_serviceId b = ''S1'' \<and> b_date b = 1717236000000
                \<and> b_status b \<in> {''pending'', ''confirmed'', ''in_progress''})"
    by (simp add: ex_empty_def)
  have taken: "\<exists>b\<in>set (bookings (ex_store ''in_progress'')). b_serviceId b = ''S1''
                \<and> b_date b = 1717236000000
                \<and> b_status b \<in> {''pending'', ''confirmed'', ''in_progress''}"
    by (simp add: ex_store_def ex_booking_def)
  have free2: "\<not> (\<exists>b\<in>set (bookings (ex_store ''cancelled'')). b_serviceId b = ''S1''
                \<and> b_date b = 1717236000000
                \<and> b_status b \<in> {''pending'', ''confirmed'', ''in_progress''})"
    by (simp add: ex_store_def ex_booking_def)
  have free3: "\<not> (\<exists>b\<in>set (bookings (ex_store ''pending'')). b_serviceId b = ''S1''
                \<and> b_date b = 1717236000001
                \<and> b_status b \<in> {''pending'', ''confirmed'', ''in_progress''})"
    by (simp add: ex_store_def ex_booking_def)
  from pre free conflict_check_exact_slot_only
    [of "''S1''" ex_empty ex_customer "''B1''" 0 1717236000000 None s_availability]
  have "\<exists>b. POST_booking ''B1'' 0 (set_availability s_availability ex_empty) ex_customer ''S1''
               (DateAt 1717236000000) None
          = (Inr b, (set_availability s_availability ex_empty)
                      \<lparr>bookings := bookings ex_empty @ [b]\<rparr>)"
    by blast
  then have 1: "\<exists>b. POST_booking ''B1'' 0 ex_empty ex_customer ''S1'' (DateAt 1717236000000) None
            = (Inr b, ex_empty\<lparr>bookings := [b]\<rparr>)"
    unfolding same by (auto simp: ex_empty_def)
  from pre2 [of "''in_progress''"] taken conflict_check_exact_slot_only
    [of "''S1''" "ex_store ''in_progress''" ex_stranger "''B2''" 1 1717236000000 None]
  have 2: "POST_booking ''B2'' 1 (ex_store ''in_progress'') ex_stranger ''S1''
        (DateAt 1717236000000) None = (Inl Conflict, ex_store ''in_progress'')"
    by blast
  from pre2 [of "''cancelled''"] free2 conflict_check_exact_slot_only
    [of "''S1''" "ex_store ''cancelled''" ex_stranger "''B2''" 1 1717236000000 None]
  have 3: "fst (POST_booking ''B2'' 1 (ex_store ''cancelled'') ex_stranger ''S1''
        (DateAt 1717236000000) None) \<noteq> Inl Conflict"
    by blast
  from pre2 [of "''pending''"] free3 conflict_check_exact_slot_only
    [of "''S1''" "ex_store ''pending''" ex_stranger "''B2''" 1 1717236000001 None]
  have 4: "fst (POST_booking ''B2'' 1 (ex_store ''pending'') ex_stranger ''S1''
        (DateAt 1717236000001) None) \<noteq> Inl Conflict"
    by blast
  show ?thesis
    using 1 2 3 4 by (simp add: ex_service_def)
qed

section \<open>Changing the status of a booking\<close>

lemma find_booking_map:
  assumes "\<And>b. b_id (g b) = b_id b"
  shows "find (\<lambda>b. b_id b = bid) (map (\<lambda>b. if b_id b = bid then g b else b) xs)
     = map_option g (find (\<lambda>b. b_id b = bid) xs)"
  using assms by (induction xs) auto

lemma booking_findUnique_update:
  assumes "\<And>b. b_id (f b) = b_id b"
  shows "booking_findUnique (booking_update now st bid f) bid
     = map_option (\<lambda>b. (f b)\<lparr>b_updatedAt := now\<rparr>) (booking_findUnique st bid)"
  using find_booking_map [of "\<lambda>b. (f b)\<lparr>b_updatedAt := now\<rparr>" bid "bookings st"] assms
  by (simp add: booking_findUnique_def booking_update_def)

lemma booking_findUnique_set_status:
  "booking_findUnique (set_status cur bid st) bid
     = map_option (\<lambda>b. b\<lparr>b_status := cur\<rparr>) (booking_findUnique st bid)"
  using find_booking_map [of "\<lambda>b. b\<lparr>b_status := cur\<rparr>" bid "bookings st"]
  by (simp add: booking_findUnique_def set_status_def)

lemma PUT_booking_accepted:
  assumes "booking_findUnique st bid = Some booking"
    and "\<not> (p_role user = RoleUser \<and> b_userId booking \<noteq> p_userId user)"
    and "\<not> (p_role user = RoleProvider \<and> b_providerId booking \<noteq> p_userId user)"
    and "status = [] \<or> status \<in> set (allowedStatuses (p_role user))"
  shows "PUT_booking now st user bid status notes =
    (let f = (\<lambda>b. let b1 = (if status \<noteq> [] then b\<lparr>b_status := status\<rparr> else b)
                  in (case notes of None \<Rightarrow> b1 | Some n \<Rightarrow> b1\<lparr>b_notes := n\<rparr>))
     in (Inr ((f booking)\<lparr>b_updatedAt := now\<rparr>), booking_update now st bid f))"
  using assms unfolding PUT_booking_def by (auto simp: Let_def)

text \<open>
  Claim C3. A request to change an existing booking to the status \<open>status\<close>, from a caller
  who passes the authorization checks, is refused as an invalid transition exactly when
  \<open>status\<close> is not in the set of the caller's role: \<open>cancelled\<close> for a user; \<open>confirmed\<close>,
  \<open>in_progress\<close>, \<open>completed\<close>, \<open>cancelled\<close> for a provider; these and \<open>pending\<close> for an
  admin. The current status of the booking plays no part: with any other current status
  \<open>cur\<close> the request is refused in the same cases, and a request that is not refused
  succeeds and leaves the booking in the requested status.
\<close>

theorem Transition_validity:
  assumes "booking_findUnique st bid = Some booking"
    and "p_role user = RoleUser \<longrightarrow> b_userId booking = p_userId user"
    and "p_role user = RoleProvider \<longrightarrow> b_providerId booking = p_userId user"
    and "status \<noteq> []"
  shows
   "(fst (PUT_booking now st user bid status notes) = Inl InvalidTransition
       \<longleftrightarrow> status \<notin> (case p_role user of
                         RoleUser \<Rightarrow> {''cancelled''}
                       | RoleProvider \<Rightarrow> {''confirmed'', ''in_progress'', ''completed'', ''cancelled''}
                       | RoleAdmin \<Rightarrow> {''pending'', ''confirmed'', ''in_progress'', ''completed'',
                                        ''cancelled''}))
  \<and> (\<forall>cur. fst (PUT_booking now (set_status cur bid st) user bid status notes)
             = Inl InvalidTransition
         \<longleftrightarrow> fst (PUT_booking now st user bid status notes) = Inl InvalidTransition)
  \<and> (fst (PUT_booking now st user bid status notes) \<noteq> Inl InvalidTransition \<longrightarrow>
       (\<exists>b'. PUT_booking now st user bid status notes
                = (Inr b', snd (PUT_booking now st user bid status notes))
            \<and> booking_findUnique (snd (PUT_booking now st user bid status notes)) bid = Some b'
            \<and> b_status b' = status))"
proof -
  have auth: "\<not> (p_role user = RoleUser \<and> b_userId booking \<noteq> p_userId user)"
    "\<not> (p_role user = RoleProvider \<and> b_providerId booking \<noteq> p_userId user)"
    using assms(2,3) by auto
  have allowed: "set (allowedStatuses (p_role user)) =
      (case p_role user of
         RoleUser \<Rightarrow> {''cancelled''}
       | RoleProvider \<Rightarrow> {''confirmed'', ''in_progress'', ''completed'', ''cancelled''}
       | RoleAdmin \<Rightarrow> {''pending'', ''confirmed'', ''in_progress'', ''completed'',
                        ''cancelled''})"
    by (cases "p_role user") auto
  have rejected: "fst (PUT_booking now st user bid status notes) = Inl InvalidTransition"
    if "status \<notin> set (allowedStatuses (p_role user))"
    using that assms(1,4) auth by (simp add: PUT_booking_def)
  have accepted: "PUT_booking now st user bid status notes
      = (Inr (b_updatedAt_update (\<lambda>_. now)
               (case notes of None \<Rightarrow> booking\<lparr>b_status := status\<rparr>
                | Some n \<Rightarrow> booking\<lparr>b_status := status, b_notes := n\<rparr>)),
         snd (PUT_booking now st user bid status notes))"
    if "status \<in> set (allowedStatuses (p_role user))"
    using PUT_booking_accepted [OF assms(1) auth] that assms(4)
    by (simp add: Let_def split: option.splits)
  have upd: "booking_findUnique (snd (PUT_booking now st user bid status notes)) bid
      = Some (b_updatedAt_update (\<lambda>_. now)
               (case notes of None \<Rightarrow> booking\<lparr>b_status := status\<rparr>
                | Some n \<Rightarrow> booking\<lparr>b_status := status, b_notes := n\<rparr>))"
    if "status \<in> set (allowedStatuses (p_role user))"
  proof -
    let ?f = "\<lambda>b. let b1 = (if status \<noteq> [] then b\<lparr>b_status := status\<rparr> else b)
                  in (case notes of None \<Rightarrow> b1 | Some n \<Rightarrow> b1\<lparr>b_notes := n\<rparr>)"
    have idf: "\<And>b. b_id (?f b) = b_id b"
      by (simp add: Let_def split: option.splits)
    have "snd (PUT_booking now st user bid status notes) = booking_update now st bid ?f"
      using PUT_booking_accepted [OF assms(1) auth] that by (simp add: Let_def)
    then show ?thesis
      using booking_findUnique_update [of ?f now st bid, OF idf] assms(1,4)
      by (simp add: Let_def split: option.splits)
  qed
  have c1: "fst (PUT_booking now st user bid status notes) = Inl InvalidTransition
       \<longleftrightarrow> status \<notin> set (allowedStatuses (p_role user))"
    using rejected accepted by (metis fst_conv sum.distinct(1))
  have c2: "fst (PUT_booking now (set_status cur bid st) user bid status notes)
             = Inl InvalidTransition
         \<longleftrightarrow> fst (PUT_booking now st user bid status notes) = Inl InvalidTransition" for cur
  proof -
    have f: "booking_findUnique (set_status cur bid st) bid = Some (booking\<lparr>b_status := cur\<rparr>)"
      using assms(1) by (simp add: booking_findUnique_set_status)
    have "fst (PUT_booking now (set_status cur bid st) user bid status notes)
             = Inl InvalidTransition
         \<longleftrightarrow> status \<notin> set (allowedStatuses (p_role user))"
    proof
      assume "fst (PUT_booking now (set_status cur bid st) user bid status notes)
             = Inl InvalidTransition"
      moreover have "\<not> (p_role user = RoleUser
            \<and> b_userId (booking\<lparr>b_status := cur\<rparr>) \<noteq> p_userId user)"
        and "\<not> (p_role user = RoleProvider
            \<and> b_providerId (booking\<lparr>b_status := cur\<rparr>) \<noteq> p_userId user)"
        using auth by simp_all
      ultimately show "status \<notin> set (allowedStatuses (p_role user))"
        using PUT_booking_accepted [OF f]
        by (auto simp: Let_def)
    next
      assume "status \<notin> set (allowedStatuses (p_role user))"
      then show "fst (PUT_booking now (set_status cur bid st) user bid status notes)
             = Inl InvalidTransition"
        using f assms(4) auth by (simp add: PUT_booking_def)
    qed
    with c1 show ?thesis by simp
  qed
  have c3: "\<exists>b'. PUT_booking now st user bid status notes
                = (Inr b', snd (PUT_booking now st user bid status notes))
            \<and> booking_findUnique (snd (PUT_booking now st user bid status notes)) bid = Some b'
            \<and> b_status b' = status"
    if "fst (PUT_booking now st user bid status notes) \<noteq> Inl InvalidTransition"
  proof -
    from that c1 have ok: "status \<in> set (allowedStatuses (p_role user))" by simp
    show ?thesis
      using accepted [OF ok] upd [OF ok] by (auto split: option.splits)
  qed
  show ?thesis
    using c1 c2 c3 unfolding allowed by blast
qed


text \<open>
  Scenario C: the customer may not confirm. The provider may complete a pending booking,
  and an admin may reopen a completed one.
\<close>

theorem Transition_validity_witness:
  "fst (PUT_booking 1 (ex_store ''pending'') ex_customer ''B1'' ''confirmed'' None)
     = Inl InvalidTransition
   \<and> fst (PUT_booking 1 (ex_store ''pending'') ex_provider ''B1'' ''completed'' None)
     \<noteq> Inl InvalidTransition
   \<and> fst (PUT_booking 1 (ex_store ''completed'') ex_admin ''B1'' ''pending'' None)
     \<noteq> Inl InvalidTransition"
proof -
  have f: "booking_findUnique (ex_store s) ''B1'' = Some (ex_booking s)" for s
    by (simp add: booking_findUnique_def ex_store_def ex_booking_def)
  have ne: "''confirmed'' \<noteq> []" "''completed'' \<noteq> []" "''pending'' \<noteq> []" by simp_all
  have c: "p_role ex_customer = RoleUser \<longrightarrow> b_userId (ex_booking s) = p_userId ex_customer"
    "p_role ex_customer = RoleProvider \<longrightarrow> b_providerId (ex_booking s) = p_userId ex_customer"
    for s by (simp_all add: ex_customer_def ex_booking_def)
  have p: "p_role ex_provider = RoleUser \<longrightarrow> b_userId (ex_booking s) = p_userId ex_provider"
    "p_role ex_provider = RoleProvider \<longrightarrow> b_providerId (ex_booking s) = p_userId ex_provider"
    for s by (simp_all add: ex_provider_def ex_booking_def)
  have a: "p_role ex_admin = RoleUser \<longrightarrow> b_userId (ex_booking s) = p_userId ex_admin"
    "p_role ex_admin = RoleProvider \<longrightarrow> b_providerId (ex_booking s) = p_userId ex_admin"
    for s by (simp_all add: ex_admin_def ex_booking_def)
  show ?thesis
    using
      Transition_validity [OF f [of "''pending''"] c [of "''pending''"] ne(1), of 1 None]
      Transition_validity [OF f [of "''pending''"] p [of "''pending''"] ne(2), of 1 None]
      Transition_validity [OF f [of "''completed''"] a [of "''completed''"] ne(3), of 1 None]
    by (simp add: ex_customer_def ex_provider_def ex_admin_def)
qed

text \<open>
  Claim C10. Authorization goes by the role of the caller: a caller with the role of a
  provider who is the customer of the booking and not its provider is refused as forbidden
  for every requested status, also \<open>cancelled\<close>, although the same account with the role
  of a user may cancel this booking.
\<close>

theorem provider_role_customer_forbidden:
  assumes "booking_findUnique st bid = Some booking"
    and "p_role user = RoleProvider"
    and "b_userId booking = p_userId user"
    and "b_providerId booking \<noteq> p_userId user"
  shows "PUT_booking now st user bid status notes = (Inl Forbidden, st)
    \<and> (\<exists>b'. fst (PUT_booking now st (user\<lparr>p_role := RoleUser\<rparr>) bid ''cancelled'' notes) = Inr b'
           \<and> b_status b' = ''cancelled'')"
proof -
  have 1: "PUT_booking now st user bid status notes = (Inl Forbidden, st)"
    using assms by (simp add: PUT_booking_def)
  have "\<not> (p_role (user\<lparr>p_role := RoleUser\<rparr>) = RoleUser
            \<and> b_userId booking \<noteq> p_userId (user\<lparr>p_role := RoleUser\<rparr>))"
    and "\<not> (p_role (user\<lparr>p_role := RoleUser\<rparr>) = RoleProvider
            \<and> b_providerId booking \<noteq> p_userId (user\<lparr>p_role := RoleUser\<rparr>))"
    and "''cancelled'' = [] \<or> ''cancelled'' \<in> set (allowedStatuses (p_role (user\<lparr>p_role := RoleUser\<rparr>)))"
    using assms(3) by simp_all
  from PUT_booking_accepted [OF assms(1) this]
  have 2: "\<exists>b'. fst (PUT_booking now st (user\<lparr>p_role := RoleUser\<rparr>) bid ''cancelled'' notes) = Inr b'
           \<and> b_status b' = ''cancelled''"
    by (simp add: Let_def split: option.splits)
  show ?thesis using 1 2 by simp
qed

text \<open>The account \<open>C1\<close>, customer of \<open>B1\<close>, with the role of a provider.\<close>

theorem provider_role_customer_forbidden_witness:
  "PUT_booking 1 (ex_store ''pending'') ex_provider_as_customer ''B1'' ''cancelled'' None
     = (Inl Forbidden, ex_store ''pending'')"
proof -
  have "booking_findUnique (ex_store ''pending'') ''B1'' = Some (ex_booking ''pending'')"
    by (simp add: booking_findUnique_def ex_store_def ex_booking_def)
  moreover have "p_role ex_provider_as_customer = RoleProvider"
    and "b_userId (ex_booking ''pending'') = p_userId ex_provider_as_customer"
    and "b_providerId (ex_booking ''pending'') \<noteq> p_userId ex_provider_as_customer"
    by (simp_all add: ex_provider_as_customer_def ex_booking_def)
  ultimately show ?thesis
    using provider_role_customer_forbidden by blast
qed

section \<open>Completed and cancelled bookings\<close>

text \<open>
  Claim C4 says that no request changes the status of a completed or cancelled booking.
  The handler of \<^verbatim>\<open>PUT\<close> does not read the current status, and the table of the admin
  holds \<open>pending\<close>: an admin moves the completed booking \<open>B1\<close> back to pending.
\<close>

theorem terminal_booking_reopened_counterexample:
  "PUT_booking 1 (ex_store ''completed'') ex_admin ''B1'' ''pending'' None
     = (Inr ((ex_booking ''pending'')\<lparr>b_updatedAt := 1\<rparr>),
        \<lparr>services = [ex_service],
         bookings = [(ex_booking ''pending'')\<lparr>b_updatedAt := 1\<rparr>], reviews = []\<rparr>)"
  by (simp add: PUT_booking_def booking_findUnique_def booking_update_def Let_def
      ex_store_def ex_booking_def ex_admin_def)

text \<open>
  Claim C4, as the handlers have it. The cancel request (\<^verbatim>\<open>DELETE /api/bookings/[id]\<close>) on
  a completed or cancelled booking is refused as an invalid operation for every caller,
  and nothing changes. The request to change the status (\<^verbatim>\<open>PUT\<close>) to another status
  than \<open>cancelled\<close> succeeds on such a booking for every caller who passes the
  authorization checks and every such status in the set of the caller's role.
\<close>

theorem cancel_of_terminal_booking_refused:
  assumes "booking_findUnique st bid = Some booking"
    and "b_status booking = ''completed'' \<or> b_status booking = ''cancelled''"
  shows "DELETE_booking now st user bid = (Inl InvalidOperation, st)
    \<and> (\<forall>caller status pnotes.
          \<not> (p_role caller = RoleUser \<and> b_userId booking \<noteq> p_userId caller)
          \<and> \<not> (p_role caller = RoleProvider \<and> b_providerId booking \<noteq> p_userId caller)
          \<and> status \<in> set (allowedStatuses (p_role caller)) \<and> status \<noteq> ''cancelled'' \<longrightarrow>
          (\<exists>b'. fst (PUT_booking now st caller bid status pnotes) = Inr b'
                \<and> b_status b' = status))"
proof -
  have 1: "DELETE_booking now st user bid = (Inl InvalidOperation, st)"
    using assms by (auto simp: DELETE_booking_def)
  have 2: "\<exists>b'. fst (PUT_booking now st caller bid status pnotes) = Inr b' \<and> b_status b' = status"
    if "\<not> (p_role caller = RoleUser \<and> b_userId booking \<noteq> p_userId caller)"
      "\<not> (p_role caller = RoleProvider \<and> b_providerId booking \<noteq> p_userId caller)"
      "status \<in> set (allowedStatuses (p_role caller))"
    for caller status pnotes
  proof -
    have ne: "status \<noteq> []"
      using that(3) by (cases "p_role caller") auto
    show ?thesis
      using PUT_booking_accepted [OF assms(1) that(1,2) disjI2 [OF that(3)]] ne
      by (simp add: Let_def split: option.splits)
  qed
  show ?thesis using 1 2 by blast
qed

text \<open>
  Cancelling the completed \<open>B1\<close> as its customer, and the cancelled \<open>B1\<close> as an admin; the
  provider confirms the cancelled \<open>B1\<close>.
\<close>

theorem cancel_of_terminal_booking_refused_witness:
  "DELETE_booking 1 (ex_store ''completed'') ex_customer ''B1''
     = (Inl InvalidOperation, ex_store ''completed'')
   \<and> DELETE_booking 1 (ex_store ''cancelled'') ex_admin ''B1''
     = (Inl InvalidOperation, ex_store ''cancelled'')
   \<and> (\<exists>b'. fst (PUT_booking 1 (ex_store ''cancelled'') ex_provider ''B1'' ''confirmed'' None)
              = Inr b' \<and> b_status b' = ''confirmed'')"
proof -
  have f: "booking_findUnique (ex_store s) ''B1'' = Some (ex_booking s)" for s
    by (simp add: booking_findUnique_def ex_store_def ex_booking_def)
  have t: "b_status (ex_booking ''completed'') = ''completed''
             \<or> b_status (ex_booking ''completed'') = ''cancelled''"
    "b_status (ex_booking ''cancelled'') = ''completed''
             \<or> b_status (ex_booking ''cancelled'') = ''cancelled''"
    by (simp_all add: ex_booking_def)
  have p: "\<not> (p_role ex_provider = RoleUser
            \<and> b_userId (ex_booking ''cancelled'') \<noteq> p_userId ex_provider)
          \<and> \<not> (p_role ex_provider = RoleProvider
            \<and> b_providerId (ex_booking ''cancelled'') \<noteq> p_userId ex_provider)
          \<and> ''confirmed'' \<in> set (allowedStatuses (p_role ex_provider))
          \<and> ''confirmed'' \<noteq> ''cancelled''"
    by (simp add: ex_provider_def ex_booking_def)
  show ?thesis
    using cancel_of_terminal_booking_refused [OF f t(1), of 1 ex_customer]
      cancel_of_terminal_booking_refused [OF f t(2), of 1 ex_admin] p
    by blast
qed

section \<open>Deleting a booking\<close>



lemma existingReview_iff:
  "(existingReview st bid = None) = (\<forall>r\<in>set (reviews st). r_bookingId r \<noteq> bid)"
  by (simp add: existingReview_def find_None_ball)




section \<open>Reviews\<close>

lemma service_update_Some:
  assumes "service_update st sid rating n = Some st'"
  shows "reviews st' = reviews st" and "bookings st' = bookings st"
    and "services st' = map (\<lambda>s. if s_id s = sid then s\<lparr>s_rating := rating, s_reviewCount := n\<rparr>
                               else s) (services st)"
    and "\<exists>s\<in>set (services st). s_id s = sid"
  using assms by (auto simp: service_update_def list_ex_iff split: if_splits)

lemma service_update_None:
  "(service_update st sid rating n = None) = (\<forall>s\<in>set (services st). s_id s \<noteq> sid)"
  by (auto simp: service_update_def list_ex_iff)

lemma foldl_rating_sum:
  "foldl (\<lambda>sum r. sum + r_rating r) a rs = a + sum_list (map r_rating rs)"
  by (induction rs arbitrary: a) auto

lemma updateServiceRating_Some:
  assumes "updateServiceRating st sid = Some st'"
    and "\<exists>r\<in>set (reviews st). r_serviceId r = sid"
  shows "reviews st' = reviews st" and "bookings st' = bookings st"
    and "services st' =
      map (\<lambda>s. if s_id s = sid
                then s\<lparr>s_rating := of_int (Math_round (mean (ratings_of st sid) * 10)) / 10,
                       s_reviewCount := length (ratings_of st sid)\<rparr>
                else s) (services st)"
    and "\<exists>s\<in>set (services st). s_id s = sid"
proof -
  let ?rs = "filter (\<lambda>r. r_serviceId r = sid) (reviews st)"
  have ne: "length ?rs > 0"
    using assms(2) by (auto simp: filter_empty_conv)
  have avg: "of_int (foldl (\<lambda>sum r. sum + r_rating r) 0 ?rs) / of_nat (length ?rs)
      = mean (ratings_of st sid)"
    by (simp add: foldl_rating_sum mean_def ratings_of_def)
  have upd: "service_update st sid (of_int (Math_round (mean (ratings_of st sid) * 10)) / 10)
      (length (ratings_of st sid)) = Some st'"
    using assms(1) ne avg unfolding updateServiceRating_def Let_def
    by (simp add: ratings_of_def)
  show "reviews st' = reviews st" "bookings st' = bookings st"
    "services st' =
      map (\<lambda>s. if s_id s = sid
                then s\<lparr>s_rating := of_int (Math_round (mean (ratings_of st sid) * 10)) / 10,
                       s_reviewCount := length (ratings_of st sid)\<rparr>
                else s) (services st)"
    "\<exists>s\<in>set (services st). s_id s = sid"
    using service_update_Some [OF upd] by simp_all
qed

lemma updateServiceRating_None:
  assumes "updateServiceRating st sid = None"
  shows "\<forall>s\<in>set (services st). s_id s \<noteq> sid"
  using assms unfolding updateServiceRating_def Let_def
  by (simp add: service_update_None split: if_splits)

lemma POST_review_Inr:
  assumes "POST_review newId now st user bid rating comment = (Inr review, st')"
  shows "\<exists>x booking. rating = Some x \<and> bid \<noteq> [] \<and> 1 \<le> x \<and> x \<le> 5
      \<and> booking_findUnique st bid = Some booking
      \<and> b_userId booking = p_userId user \<and> b_status booking = ''completed''
      \<and> existingReview st bid = None
      \<and> review_create newId now (p_userId user) (b_serviceId booking) (b_providerId booking)
           bid x comment = Some review
      \<and> updateServiceRating (st\<lparr>reviews := reviews st @ [review]\<rparr>) (b_serviceId booking)
           = Some st'"
  using assms unfolding POST_review_def Let_def
  by (auto split: option.splits if_splits)

lemma POST_review_Inl:
  assumes "POST_review newId now st user bid rating comment = (Inl e, st')"
  shows "st' = st \<or>
     (e = Internal \<and> (\<exists>booking review. booking_findUnique st bid = Some booking
        \<and> st' = st\<lparr>reviews := reviews st @ [review]\<rparr>
        \<and> updateServiceRating st' (b_serviceId booking) = None))"
  using assms unfolding POST_review_def Let_def
  by (auto split: option.splits if_splits)

lemma bookings_have_serviceD:
  assumes "bookings_have_service st" and "booking_findUnique st bid = Some booking"
  shows "\<exists>s\<in>set (services st). s_id s = b_serviceId booking"
  using assms find_SomeD [of "\<lambda>b. b_id b = bid" "bookings st" booking]
  by (auto simp: bookings_have_service_def booking_findUnique_def list_all_iff list_ex_iff)

lemma rounded_half_up:
  "rounded_to_one_decimal x (of_int (Math_round (x * 10)) / 10)"
proof -
  let ?k = "Math_round (x * 10)"
  have lo: "of_int ?k \<le> x * 10 + 1 / 2"
    unfolding Math_round_def by (rule of_int_floor_le)
  have hi: "x * 10 + 1 / 2 < of_int ?k + 1"
    unfolding Math_round_def by linarith
  have "of_int ?k / 10 - x \<le> 1 / 20" and "x - of_int ?k / 10 \<le> 1 / 20"
    using lo hi by (simp_all add: field_simps)
  then have "\<bar>of_int ?k / 10 - x\<bar> \<le> 1 / 20"
    by linarith
  then show ?thesis
    by (simp add: rounded_to_one_decimal_def)
qed


text \<open>
  The steps of a request compose to the handler.
\<close>

lemma updateServiceRating_steps:
  "updateServiceRating st sid = updateServiceRating_update st sid (review_findMany st sid)"
  by (simp add: updateServiceRating_def updateServiceRating_update_def review_findMany_def Let_def)

lemma POST_review_steps:
  "POST_review newId now st user bookingId rating comment =
     (case POST_review_create newId now st user bookingId rating comment of
        (Inl e, st') \<Rightarrow> (Inl e, st')
      | (Inr (review, sid), st1) \<Rightarrow>
          (case updateServiceRating_update st1 sid (review_findMany st1 sid) of
             None \<Rightarrow> (Inl Internal, st1)
           | Some st2 \<Rightarrow> (Inr review, st2)))"
  unfolding updateServiceRating_steps [symmetric]
  by (simp add: POST_review_def POST_review_create_def Let_def split: option.splits)

text \<open>
  Claim C5 says that after every successful review, of concurrent requests too, the
  rating of the service is the rounded mean of its reviews and the count their number.
  Two requests, a review of \<open>B1\<close> with 5 and a review of \<open>B2\<close> with 1, run interleaved: the
  first inserts its review and reads the reviews of \<open>S1\<close>; the second inserts its
  review, reads and updates; then the first updates from what it has read. Both succeed,
  and \<open>S1\<close> ends with the reviews 5 and 1, of mean 3, with the rating 5 and the count 1.
\<close>

theorem interleaved_reviews_counterexample:
  "POST_review_create ''R1'' 1 ex_two_completed ex_customer ''B1'' (Some 5) None
     = (Inr (ex_review\<lparr>r_rating := 5\<rparr>, ''S1''),
        ex_two_completed\<lparr>reviews := [ex_review\<lparr>r_rating := 5\<rparr>]\<rparr>)
   \<and> review_findMany (ex_two_completed\<lparr>reviews := [ex_review\<lparr>r_rating := 5\<rparr>]\<rparr>) ''S1''
     = [ex_review\<lparr>r_rating := 5\<rparr>]
   \<and> POST_review_create ''R2'' 2 (ex_two_completed\<lparr>reviews := [ex_review\<lparr>r_rating := 5\<rparr>]\<rparr>)
       ex_stranger ''B2'' (Some 1) None
     = (Inr (ex_review2 1, ''S1''),
        ex_two_completed\<lparr>reviews := [ex_review\<lparr>r_rating := 5\<rparr>, ex_review2 1]\<rparr>)
   \<and> updateServiceRating_update
       (ex_two_completed\<lparr>reviews := [ex_review\<lparr>r_rating := 5\<rparr>, ex_review2 1]\<rparr>) ''S1''
       (review_findMany
         (ex_two_completed\<lparr>reviews := [ex_review\<lparr>r_rating := 5\<rparr>, ex_review2 1]\<rparr>) ''S1'')
     = Some \<lparr> services = [ex_service\<lparr>s_rating := 3, s_reviewCount := 2\<rparr>],
              bookings = [ex_booking ''completed'', ex_booking2],
              reviews = [ex_review\<lparr>r_rating := 5\<rparr>, ex_review2 1] \<rparr>
   \<and> updateServiceRating_update
       \<lparr> services = [ex_service\<lparr>s_rating := 3, s_reviewCount := 2\<rparr>],
         bookings = [ex_booking ''completed'', ex_booking2],
         reviews = [ex_review\<lparr>r_rating := 5\<rparr>, ex_review2 1] \<rparr> ''S1''
       [ex_review\<lparr>r_rating := 5\<rparr>]
     = Some \<lparr> services = [ex_service\<lparr>s_rating := 5, s_reviewCount := 1\<rparr>],
              bookings = [ex_booking ''completed'', ex_booking2],
              reviews = [ex_review\<lparr>r_rating := 5\<rparr>, ex_review2 1] \<rparr>
   \<and> ratings_of \<lparr> services = [ex_service\<lparr>s_rating := 5, s_reviewCount := 1\<rparr>],
                    bookings = [ex_booking ''completed'', ex_booking2],
                    reviews = [ex_review\<lparr>r_rating := 5\<rparr>, ex_review2 1] \<rparr> ''S1'' = [5, 1]
   \<and> mean [5, 1] = 3
   \<and> \<not> rounded_to_one_decimal (mean [5, 1]) 5"
proof -
  have fl: "\<lfloor>(101::rat) / 2\<rfloor> = 50" "\<lfloor>(61::rat) / 2\<rfloor> = 30"
    by linarith+
  show ?thesis
    by (simp add: POST_review_create_def booking_findUnique_def existingReview_def
        review_create_def review_findMany_def updateServiceRating_update_def service_update_def
        Math_round_def ratings_of_def mean_def rounded_to_one_decimal_def Let_def fl
        ex_two_completed_def ex_booking_def ex_booking2_def ex_customer_def ex_stranger_def
        ex_review_def ex_review2_def ex_service_def)
qed

text \<open>
  Claim C5, as the handler has it. After a successful review whose steps run with no
  other request in between, every service with the id of the booking's service (there is
  one) has as \<open>reviewCount\<close> the number of the reviews that are now linked to it, the new
  one among them, and as \<open>rating\<close> the mean of their ratings rounded to one decimal
  place: a multiple of 1/10 at a distance of at most 1/20 from the mean, namely the mean
  times ten, rounded with a half going up, divided by ten.
\<close>

theorem rating_after_review:
  assumes "POST_review newId now st user bookingId rating comment = (Inr review, st')"
  shows "\<exists>booking. booking_findUnique st bookingId = Some booking
      \<and> reviews st' = reviews st @ [review]
      \<and> r_serviceId review = b_serviceId booking
      \<and> (\<exists>s\<in>set (services st'). s_id s = b_serviceId booking)
      \<and> (\<forall>s\<in>set (services st'). s_id s = b_serviceId booking \<longrightarrow>
            ratings_of st' (s_id s) \<noteq> []
          \<and> s_reviewCount s = length (ratings_of st' (s_id s))
          \<and> rounded_to_one_decimal (mean (ratings_of st' (s_id s))) (s_rating s)
          \<and> s_rating s = of_int \<lfloor>mean (ratings_of st' (s_id s)) * 10 + 1 / 2\<rfloor> / 10)"
proof -
  from POST_review_Inr [OF assms] obtain x booking where
    b: "booking_findUnique st bookingId = Some booking"
    and c: "review_create newId now (p_userId user) (b_serviceId booking)
              (b_providerId booking) bookingId x comment = Some review"
    and u: "updateServiceRating (st\<lparr>reviews := reviews st @ [review]\<rparr>) (b_serviceId booking)
              = Some st'"
    by blast
  let ?sid = "b_serviceId booking"
  let ?st1 = "st\<lparr>reviews := reviews st @ [review]\<rparr>"
  have sid: "r_serviceId review = ?sid"
    using c by (auto simp: review_create_def split: if_splits)
  then have ex: "\<exists>r\<in>set (reviews ?st1). r_serviceId r = ?sid"
    by auto
  note upd = updateServiceRating_Some [OF u ex]
  have revs: "reviews st' = reviews st @ [review]"
    using upd(1) by simp
  have same: "ratings_of st' ?sid = ratings_of ?st1 ?sid"
    using upd(1) by (simp add: ratings_of_def)
  have ne: "ratings_of st' ?sid \<noteq> []"
    using sid revs by (simp add: ratings_of_def)
  have svc_ex: "\<exists>s\<in>set (services st'). s_id s = ?sid"
  proof -
    from upd(4) obtain s0 where s0: "s0 \<in> set (services st)" "s_id s0 = ?sid"
      by auto
    let ?g = "\<lambda>s. if s_id s = ?sid
                then s\<lparr>s_rating := of_int (Math_round (mean (ratings_of ?st1 ?sid) * 10)) / 10,
                       s_reviewCount := length (ratings_of ?st1 ?sid)\<rparr>
                else s"
    have "?g s0 \<in> set (services st')"
      using s0(1) upd(3) by simp
    moreover have "s_id (?g s0) = ?sid"
      using s0(2) by simp
    ultimately show ?thesis by blast
  qed
  have svc: "ratings_of st' (s_id s) \<noteq> []
          \<and> s_reviewCount s = length (ratings_of st' (s_id s))
          \<and> rounded_to_one_decimal (mean (ratings_of st' (s_id s))) (s_rating s)
          \<and> s_rating s = of_int \<lfloor>mean (ratings_of st' (s_id s)) * 10 + 1 / 2\<rfloor> / 10"
    if "s \<in> set (services st')" "s_id s = ?sid" for s
  proof -
    from that upd(3) obtain s0 where
      "s = s0\<lparr>s_rating := of_int (Math_round (mean (ratings_of ?st1 ?sid) * 10)) / 10,
              s_reviewCount := length (ratings_of ?st1 ?sid)\<rparr>"
      by (auto split: if_splits)
    then have r: "s_rating s = of_int (Math_round (mean (ratings_of st' ?sid) * 10)) / 10"
      and n: "s_reviewCount s = length (ratings_of st' ?sid)"
      using same by simp_all
    have "rounded_to_one_decimal (mean (ratings_of st' ?sid)) (s_rating s)"
      unfolding r by (rule rounded_half_up)
    moreover have "s_rating s = of_int \<lfloor>mean (ratings_of st' ?sid) * 10 + 1 / 2\<rfloor> / 10"
      unfolding r Math_round_def by (rule refl)
    ultimately show ?thesis
      using ne n unfolding that(2) by blast
  qed
  show ?thesis
    using b revs sid svc_ex svc by blast
qed

text \<open>
  \<open>S1\<close> has two reviews with 5; \<open>C1\<close> reviews the completed \<open>B1\<close> with 4. The mean of
  5, 5 and 4 is 14/3; \<open>S1\<close> has the rating 4.7 and three reviews.
\<close>

theorem rating_after_review_witness:
  "fst (POST_review ''R1'' 1 ex_rated ex_customer ''B1'' (Some 4) None) = Inr ex_review
   \<and> ratings_of (snd (POST_review ''R1'' 1 ex_rated ex_customer ''B1'' (Some 4) None)) ''S1''
       = [5, 5, 4]
   \<and> mean [5, 5, 4] = 14 / 3
   \<and> map s_reviewCount
         (services (snd (POST_review ''R1'' 1 ex_rated ex_customer ''B1'' (Some 4) None))) = [3]
   \<and> map s_rating
         (services (snd (POST_review ''R1'' 1 ex_rated ex_customer ''B1'' (Some 4) None)))
       = [47 / 10]"
proof -
  let ?st' = "\<lparr> services = [ex_service\<lparr>s_rating := 47 / 10, s_reviewCount := 3\<rparr>],
       bookings = [ex_booking ''completed'', ex_booking2, ex_booking3],
       reviews = [ex_review2 5, ex_review3, ex_review] \<rparr>"
  have fl: "\<lfloor>(283::rat) / 6\<rfloor> = 47"
    by linarith
  have run: "POST_review ''R1'' 1 ex_rated ex_customer ''B1'' (Some 4) None
     = (Inr ex_review, ?st')"
    by (simp add: POST_review_def booking_findUnique_def existingReview_def review_create_def
        updateServiceRating_def service_update_def Math_round_def Let_def fl
        ex_rated_def ex_booking_def ex_booking2_def ex_booking3_def ex_customer_def
        ex_review_def ex_review2_def ex_review3_def ex_service_def)
  have rs: "ratings_of ?st' ''S1'' = [5, 5, 4]"
    by (simp add: ratings_of_def ex_review_def ex_review2_def ex_review3_def)
  have m: "mean [5, 5, 4] = 14 / 3"
    by (simp add: mean_def)
  have f: "booking_findUnique ex_rated ''B1'' = Some (ex_booking ''completed'')"
    by (simp add: booking_findUnique_def ex_rated_def ex_booking_def)
  have sid: "b_serviceId (ex_booking ''completed'') = ''S1''"
    by (simp add: ex_booking_def)
  have ids: "\<forall>s\<in>set (services ?st'). s_id s = ''S1''"
    by (simp add: ex_service_def)
  from rating_after_review [OF run] f sid ids
  have "\<forall>s\<in>set (services ?st').
          s_reviewCount s = length (ratings_of ?st' ''S1'')
        \<and> s_rating s = of_int \<lfloor>mean (ratings_of ?st' ''S1'') * 10 + 1 / 2\<rfloor> / 10"
    by auto
  then have "\<forall>s\<in>set (services ?st'). s_reviewCount s = 3 \<and> s_rating s = 47 / 10"
    unfolding rs m by (simp add: fl)
  then have "map s_reviewCount (services ?st') = [3] \<and> map s_rating (services ?st') = [47 / 10]"
    by simp
  with run rs m show ?thesis by simp
qed

lemma POST_review_unchanged_or_appended:
  "reviews (snd (POST_review newId now st user bid rating comment)) = reviews st
   \<or> (existingReview st bid = None
      \<and> (\<exists>review. r_bookingId review = bid
            \<and> reviews (snd (POST_review newId now st user bid rating comment))
                = reviews st @ [review]))"
proof (cases "fst (POST_review newId now st user bid rating comment)")
  case (Inl e)
  then have "POST_review newId now st user bid rating comment
      = (Inl e, snd (POST_review newId now st user bid rating comment))"
    by (metis prod.collapse)
  then show ?thesis
    unfolding POST_review_def Let_def
    by (auto simp: review_create_def split: option.splits if_splits)
next
  case (Inr review)
  obtain st' where eq: "POST_review newId now st user bid rating comment = (Inr review, st')"
    using Inr by (cases "POST_review newId now st user bid rating comment") auto
  then have res: "snd (POST_review newId now st user bid rating comment) = st'"
    by simp
  from POST_review_Inr [OF eq] obtain x booking where
    e: "existingReview st bid = None"
    and "booking_findUnique st bid = Some booking"
    and c: "review_create newId now (p_userId user) (b_serviceId booking)
              (b_providerId booking) bid x comment = Some review"
    and u: "updateServiceRating (st\<lparr>reviews := reviews st @ [review]\<rparr>) (b_serviceId booking)
              = Some st'"
    by blast
  have sid: "r_serviceId review = b_serviceId booking" and bid: "r_bookingId review = bid"
    using c by (auto simp: review_create_def split: if_splits)
  have "\<exists>r\<in>set (reviews (st\<lparr>reviews := reviews st @ [review]\<rparr>)).
          r_serviceId r = b_serviceId booking"
    using sid by auto
  from updateServiceRating_Some(1) [OF u this]
  show ?thesis unfolding res using e bid by auto
qed

text \<open>
  Claim C6, as the handler has it. Once a review references a booking, every further
  review request for this booking fails and leaves the store unchanged, whoever calls and
  whatever the rating is; the error is the one of the first check that fails, and it is
  \<open>Conflict\<close> when the rating is in range and the caller is the customer of the completed
  booking. So the handlers keep the booking ids of the reviews distinct: a review request
  does, and no other handler touches the reviews.
\<close>

theorem second_review_refused:
  "((\<exists>r\<in>set (reviews st). r_bookingId r = bookingId) \<longrightarrow>
      (\<exists>e. POST_review newId now st user bookingId rating comment = (Inl e, st)
          \<and> e \<in> {ValidationError, NotFound, Forbidden, InvalidOperation, Conflict})
    \<and> (\<forall>x booking. rating = Some x \<and> 1 \<le> x \<and> x \<le> 5 \<and> bookingId \<noteq> []
          \<and> booking_findUnique st bookingId = Some booking
          \<and> b_userId booking = p_userId user \<and> b_status booking = ''completed'' \<longrightarrow>
          POST_review newId now st user bookingId rating comment = (Inl Conflict, st)))
  \<and> (distinct (map r_bookingId (reviews st)) \<longrightarrow>
       distinct (map r_bookingId
         (reviews (snd (POST_review newId now st user bookingId rating comment)))))
  \<and> reviews (snd (POST_booking newId now st user serviceId date bnotes)) = reviews st
  \<and> reviews (snd (PUT_booking now st user bookingId status pnotes)) = reviews st
  \<and> reviews (snd (DELETE_booking now st user bookingId)) = reviews st
  \<and> reviews (snd (admin_DELETE_booking st auser bookingId)) = reviews st"
proof -
  have 1: "(\<exists>e. POST_review newId now st user bookingId rating comment = (Inl e, st)
          \<and> e \<in> {ValidationError, NotFound, Forbidden, InvalidOperation, Conflict})
    \<and> (\<forall>x booking. rating = Some x \<and> 1 \<le> x \<and> x \<le> 5 \<and> bookingId \<noteq> []
          \<and> booking_findUnique st bookingId = Some booking
          \<and> b_userId booking = p_userId user \<and> b_status booking = ''completed'' \<longrightarrow>
          POST_review newId now st user bookingId rating comment = (Inl Conflict, st))"
    if "\<exists>r\<in>set (reviews st). r_bookingId r = bookingId"
  proof -
    from that obtain r where "existingReview st bookingId = Some r"
      using existingReview_iff [of st bookingId] by (cases "existingReview st bookingId") auto
    then show ?thesis
      unfolding POST_review_def by (auto split: option.splits)
  qed
  have 2: "distinct (map r_bookingId
         (reviews (snd (POST_review newId now st user bookingId rating comment))))"
    if d: "distinct (map r_bookingId (reviews st))"
    using POST_review_unchanged_or_appended [of newId now st user bookingId rating comment]
  proof
    assume "reviews (snd (POST_review newId now st user bookingId rating comment)) = reviews st"
    with d show ?thesis by simp
  next
    assume "existingReview st bookingId = None
      \<and> (\<exists>review. r_bookingId review = bookingId
            \<and> reviews (snd (POST_review newId now st user bookingId rating comment))
                = reviews st @ [review])"
    then obtain review where n: "\<forall>r\<in>set (reviews st). r_bookingId r \<noteq> bookingId"
      and b: "r_bookingId review = bookingId"
      and r: "reviews (snd (POST_review newId now st user bookingId rating comment))
                = reviews st @ [review]"
      unfolding existingReview_iff by blast
    have "r_bookingId review \<notin> set (map r_bookingId (reviews st))"
      using n b by auto
    with d show ?thesis
      unfolding r by simp
  qed
  have 3: "reviews (snd (POST_booking newId now st user serviceId date bnotes)) = reviews st"
    by (simp add: POST_booking_def Let_def split: option.splits date_in.splits)
  have 4: "reviews (snd (PUT_booking now st user bookingId status pnotes)) = reviews st"
    by (simp add: PUT_booking_def Let_def booking_update_def split: option.splits)
  have 5: "reviews (snd (DELETE_booking now st user bookingId)) = reviews st"
    by (simp add: DELETE_booking_def booking_update_def split: option.splits)
  have 6: "reviews (snd (admin_DELETE_booking st auser bookingId)) = reviews st"
    by (simp add: admin_DELETE_booking_def booking_delete_def split: option.splits)
  show ?thesis using 1 2 3 4 5 6 by blast
qed

text \<open>Scenario B: the second review of \<open>B1\<close> by its customer.\<close>

theorem second_review_refused_witness:
  "POST_review ''R2'' 2 ex_reviewed ex_customer ''B1'' (Some 5) None
     = (Inl Conflict, ex_reviewed)"
proof -
  have "\<exists>r\<in>set (reviews ex_reviewed). r_bookingId r = ''B1''"
    by (simp add: ex_reviewed_def ex_review_def)
  moreover have "Some (5::rat) = Some 5 \<and> (1::rat) \<le> 5 \<and> (5::rat) \<le> 5 \<and> ''B1'' \<noteq> []
      \<and> booking_findUnique ex_reviewed ''B1'' = Some (ex_booking ''completed'')
      \<and> b_userId (ex_booking ''completed'') = p_userId ex_customer
      \<and> b_status (ex_booking ''completed'') = ''completed''"
    by (simp add: booking_findUnique_def ex_reviewed_def ex_booking_def ex_customer_def)
  ultimately show ?thesis
    using second_review_refused [of ex_reviewed "''B1''" "''R2''" 2 ex_customer "Some 5" None]
    by blast
qed

text \<open>
  Claim C6 says that the second request fails with \<open>Conflict\<close> regardless of the caller
  and of the rating. The rating and the caller are checked before the existing review is
  looked up: another user is refused as forbidden, and a rating of 6 as a validation
  error.
\<close>

theorem second_review_other_error_counterexample:
  "POST_review ''R2'' 2 ex_reviewed ex_stranger ''B1'' (Some 5) None
     = (Inl Forbidden, ex_reviewed)
   \<and> POST_review ''R2'' 2 ex_reviewed ex_customer ''B1'' (Some 6) None
     = (Inl ValidationError, ex_reviewed)
   \<and> map r_bookingId (reviews ex_reviewed) = [''B1'']"
  by (simp add: POST_review_def booking_findUnique_def
      ex_reviewed_def ex_booking_def ex_review_def ex_stranger_def ex_customer_def)

text \<open>
  Claim C7 says that a rating of 4.5 is refused as a validation error. The handler
  compares the rating with 1 and with 5 only, so 4.5 passes the validation.
\<close>

theorem fractional_rating_counterexample:
  "fst (POST_review ''R1'' 1 (ex_store ''completed'') ex_customer ''B1'' (Some (9 / 2)) None)
     \<noteq> Inl ValidationError"
proof -
  have "\<lfloor>(9::rat) / 2\<rfloor> = 4" by linarith
  then show ?thesis
    by (simp add: POST_review_def booking_findUnique_def existingReview_def review_create_def
        ex_store_def ex_booking_def ex_customer_def)
qed

text \<open>
  Claim C7, as the handler has it. A review request is refused as a validation error
  exactly when the booking id is missing, the rating is missing, or the rating is a number
  below 1 or above 5 (0 among them); then no review is created and no service is updated.
\<close>

theorem rating_validation:
  "(fst (POST_review newId now st user bookingId rating comment) = Inl ValidationError
      \<longleftrightarrow> bookingId = [] \<or> rating = None \<or> (\<exists>x. rating = Some x \<and> (x < 1 \<or> 5 < x)))
   \<and> (fst (POST_review newId now st user bookingId rating comment) = Inl ValidationError
      \<longrightarrow> snd (POST_review newId now st user bookingId rating comment) = st)"
  unfolding POST_review_def Let_def
  by (auto split: option.splits)

text \<open>The ratings 6 and 0, and no rating.\<close>

theorem rating_validation_witness:
  "POST_review ''R1'' 1 (ex_store ''completed'') ex_customer ''B1'' (Some 6) None
     = (Inl ValidationError, ex_store ''completed'')
   \<and> POST_review ''R1'' 1 (ex_store ''completed'') ex_customer ''B1'' (Some 0) None
     = (Inl ValidationError, ex_store ''completed'')
   \<and> POST_review ''R1'' 1 (ex_store ''completed'') ex_customer ''B1'' None None
     = (Inl ValidationError, ex_store ''completed'')"
proof -
  have "\<exists>x. Some (6::rat) = Some x \<and> (x < 1 \<or> 5 < x)"
    and "\<exists>x. Some (0::rat) = Some x \<and> (x < 1 \<or> 5 < x)"
    by simp_all
  then show ?thesis
    using
      rating_validation [of "''R1''" 1 "ex_store ''completed''" ex_customer "''B1''" "Some 6" None]
      rating_validation [of "''R1''" 1 "ex_store ''completed''" ex_customer "''B1''" "Some 0" None]
      rating_validation [of "''R1''" 1 "ex_store ''completed''" ex_customer "''B1''" None None]
    by (metis prod.collapse)
qed

section \<open>Errors change nothing\<close>

text \<open>
  Claim C8. Every handler that answers with an error leaves the store as it was: creating
  a booking, changing it, cancelling it, deleting it, and, in a store where the service of
  every booking exists (the foreign key of the booking), reviewing it. In particular the
  booking of a change request that is refused as forbidden or as an invalid transition is
  read back unchanged, with its status, notes and time of update.
\<close>

theorem errors_leave_store_unchanged:
  "(fst (POST_booking newId now st user serviceId date bnotes) = Inl e \<longrightarrow>
      snd (POST_booking newId now st user serviceId date bnotes) = st)
  \<and> (fst (PUT_booking now st user bid status pnotes) = Inl e \<longrightarrow>
      snd (PUT_booking now st user bid status pnotes) = st)
  \<and> (fst (PUT_booking now st user bid status pnotes) \<in> {Inl Forbidden, Inl InvalidTransition}
      \<longrightarrow> booking_findUnique (snd (PUT_booking now st user bid status pnotes)) bid
            = booking_findUnique st bid)
  \<and> (fst (DELETE_booking now st user bid) = Inl e \<longrightarrow>
      snd (DELETE_booking now st user bid) = st)
  \<and> (fst (admin_DELETE_booking st auser bid) = Inl e \<longrightarrow>
      snd (admin_DELETE_booking st auser bid) = st)
  \<and> (bookings_have_service st \<longrightarrow>
      fst (POST_review newId now st user bid rating comment) = Inl e \<longrightarrow>
      snd (POST_review newId now st user bid rating comment) = st)"
proof -
  have 1: "fst (POST_booking newId now st user serviceId date bnotes) = Inl e \<longrightarrow>
      snd (POST_booking newId now st user serviceId date bnotes) = st"
    by (simp add: POST_booking_def Let_def split: option.splits date_in.splits)
  have 2: "snd (PUT_booking now st user bid status pnotes) = st"
    if err: "fst (PUT_booking now st user bid status pnotes) = Inl e'" for e'
  proof (cases "booking_findUnique st bid")
    case None
    then show ?thesis by (simp add: PUT_booking_def)
  next
    case (Some booking)
    show ?thesis
    proof (cases "\<not> (p_role user = RoleUser \<and> b_userId booking \<noteq> p_userId user)
        \<and> \<not> (p_role user = RoleProvider \<and> b_providerId booking \<noteq> p_userId user)
        \<and> (status = [] \<or> status \<in> set (allowedStatuses (p_role user)))")
      case True
      then have "\<exists>b'. fst (PUT_booking now st user bid status pnotes) = Inr b'"
        using PUT_booking_accepted [OF Some, of user status now pnotes]
        by (simp add: Let_def)
      with err show ?thesis by simp
    next
      case False
      with Some show ?thesis by (auto simp: PUT_booking_def)
    qed
  qed
  have 3: "fst (DELETE_booking now st user bid) = Inl e \<longrightarrow>
      snd (DELETE_booking now st user bid) = st"
    by (simp add: DELETE_booking_def split: option.splits)
  have 4: "fst (admin_DELETE_booking st auser bid) = Inl e \<longrightarrow>
      snd (admin_DELETE_booking st auser bid) = st"
    by (simp add: admin_DELETE_booking_def split: option.splits)
  have 5: "snd (POST_review newId now st user bid rating comment) = st"
    if wf: "bookings_have_service st"
      and err: "fst (POST_review newId now st user bid rating comment) = Inl e"
  proof -
    let ?st' = "snd (POST_review newId now st user bid rating comment)"
    have "POST_review newId now st user bid rating comment = (Inl e, ?st')"
      using err by (metis prod.collapse)
    from POST_review_Inl [OF this] show ?thesis
    proof
      assume "?st' = st" then show ?thesis .
    next
      assume "e = Internal \<and> (\<exists>booking review. booking_findUnique st bid = Some booking
        \<and> ?st' = st\<lparr>reviews := reviews st @ [review]\<rparr>
        \<and> updateServiceRating ?st' (b_serviceId booking) = None)"
      then obtain booking review where b: "booking_findUnique st bid = Some booking"
        and s: "?st' = st\<lparr>reviews := reviews st @ [review]\<rparr>"
        and n: "updateServiceRating ?st' (b_serviceId booking) = None"
        by blast
      have "\<forall>x\<in>set (services ?st'). s_id x \<noteq> b_serviceId booking"
        using updateServiceRating_None [OF n] .
      moreover have "services ?st' = services st"
        using s by simp
      ultimately have False
        using bookings_have_serviceD [OF wf b] by auto
      then show ?thesis ..
    qed
  qed
  have 6: "booking_findUnique (snd (PUT_booking now st user bid status pnotes)) bid
            = booking_findUnique st bid"
    if "fst (PUT_booking now st user bid status pnotes) \<in> {Inl Forbidden, Inl InvalidTransition}"
    using that 2 by auto
  show ?thesis using 1 2 3 4 5 6 by blast
qed

text \<open>
  A stranger and the customer ask for a change of \<open>B1\<close> together with new notes; the
  customer reviews \<open>B1\<close> a second time.
\<close>

theorem errors_leave_store_unchanged_witness:
  "PUT_booking 1 (ex_store ''pending'') ex_stranger ''B1'' ''cancelled'' (Some (Some ''x''))
     = (Inl Forbidden, ex_store ''pending'')
   \<and> PUT_booking 1 (ex_store ''pending'') ex_customer ''B1'' ''confirmed'' (Some (Some ''x''))
     = (Inl InvalidTransition, ex_store ''pending'')
   \<and> bookings_have_service ex_reviewed
   \<and> POST_review ''R2'' 2 ex_reviewed ex_customer ''B1'' (Some 5) None
     = (Inl Conflict, ex_reviewed)"
proof -
  have a: "fst (PUT_booking 1 (ex_store ''pending'') ex_stranger ''B1'' ''cancelled''
                  (Some (Some ''x''))) = Inl Forbidden"
    by (simp add: PUT_booking_def booking_findUnique_def ex_store_def ex_booking_def
        ex_stranger_def)
  have b: "fst (PUT_booking 1 (ex_store ''pending'') ex_customer ''B1'' ''confirmed''
                  (Some (Some ''x''))) = Inl InvalidTransition"
    by (simp add: PUT_booking_def booking_findUnique_def ex_store_def ex_booking_def
        ex_customer_def)
  have c: "bookings_have_service ex_reviewed"
    by (simp add: bookings_have_service_def ex_reviewed_def ex_booking_def ex_service_def)
  have d: "fst (POST_review ''R2'' 2 ex_reviewed ex_customer ''B1'' (Some 5) None) = Inl Conflict"
    by (simp add: POST_review_def booking_findUnique_def existingReview_def
        ex_reviewed_def ex_booking_def ex_review_def ex_customer_def)
  show ?thesis
    using a b c d
      errors_leave_store_unchanged [where e = Forbidden and st = "ex_store ''pending''"
        and user = ex_stranger and bid = "''B1''" and status = "''cancelled''"
        and pnotes = "Some (Some ''x'')" and now = 1]
      errors_leave_store_unchanged [where e = InvalidTransition and st = "ex_store ''pending''"
        and user = ex_customer and bid = "''B1''" and status = "''confirmed''"
        and pnotes = "Some (Some ''x'')" and now = 1]
      errors_leave_store_unchanged [where e = Conflict and st = ex_reviewed
        and user = ex_customer and bid = "''B1''" and rating = "Some 5" and comment = None
        and newId = "''R2''" and now = 2]
    by (metis prod.collapse)
qed

end
